theory Spec2Isabelle
  imports Complex_Main
begin

section \<open>JavaScript values used by the calculation core\<close>

text \<open>
  The calculation core of TechTresses (\<^verbatim>\<open>services/taxService.js\<close>,
  \<^verbatim>\<open>services/invoiceService.js\<close> and the two controllers that repeat its arithmetic)
  works on JavaScript numbers that hold rupee amounts. A number is modelled as an exact
  \<^typ>\<open>real\<close>: the decimal literals of the source (\<^verbatim>\<open>0.05\<close>, \<^verbatim>\<open>0.18\<close>, \<^verbatim>\<open>1.04\<close>) are the
  exact fractions, and \<^verbatim>\<open>Math.round\<close>, which rounds to the nearest integer with ties going
  up, is \<open>\<lfloor>x + 1/2\<rfloor>\<close>. The binary rounding error of IEEE doubles is not part of the model.
\<close>

definition Math_round :: "real \<Rightarrow> real" where
  "Math_round x = of_int \<lfloor>x + 1 / 2\<rfloor>"

text \<open>
  A template literal \<^verbatim>\<open>${n}\<close> renders an integral number in decimal, with a leading minus
  sign when it is negative.
\<close>

fun digits :: "nat \<Rightarrow> string" where
  "digits n =
     (if n < 10 then [''0123456789'' ! n]
      else digits (n div 10) @ [''0123456789'' ! (n mod 10)])"

declare digits.simps [simp del]

definition Number_toString :: "int \<Rightarrow> string" where
  "Number_toString i = (if i < 0 then CHR ''-'' # digits (nat (- i)) else digits (nat i))"

text \<open>
  Of a \<^verbatim>\<open>Date\<close> the core reads the full year and the zero-based month only.
\<close>

record jsDate =
  getFullYear :: int
  getMonth :: nat

text \<open>
  A controller answers a request that fails its checks with status 400 and a message.
\<close>

datatype httpError = BadRequest string

section \<open>TaxService\<close>

subsection \<open>calculateIncomeTax, applyTDS, checkGSTThreshold\<close>

text \<open>
  \<open>slabTax\<close> is the local variable \<^verbatim>\<open>tax\<close> of \<^verbatim>\<open>calculateIncomeTax\<close> after the chain of
  comparisons, before it is rounded.
\<close>

definition slabTax :: "real \<Rightarrow> real" where
  "slabTax totalIncome =
     (if totalIncome \<le> 250000 then 0
      else if totalIncome \<le> 500000 then (totalIncome - 250000) * 0.05
      else if totalIncome \<le> 750000 then 12500 + (totalIncome - 500000) * 0.10
      else if totalIncome \<le> 1000000 then 37500 + (totalIncome - 750000) * 0.15
      else if totalIncome \<le> 1250000 then 75000 + (totalIncome - 1000000) * 0.20
      else if totalIncome \<le> 1500000 then 125000 + (totalIncome - 1250000) * 0.25
      else 187500 + (totalIncome - 1500000) * 0.30)"

definition calculateIncomeTax :: "real \<Rightarrow> real" where
  "calculateIncomeTax totalIncome = (let tax = slabTax totalIncome in Math_round tax)"

definition applyTDS :: "real \<Rightarrow> real" where
  "applyTDS amount = Math_round (amount * 0.10)"

definition checkGSTThreshold :: "real \<Rightarrow> bool" where
  "checkGSTThreshold totalIncome = (totalIncome > 2000000)"

subsection \<open>getAdvanceTaxDue\<close>

text \<open>
  The function reads the clock; the reading is the parameter \<open>today\<close>.
\<close>

record advanceTaxInfo =
  amountDue :: real
  nextDueDate :: string
  percentageDue :: real

definition getAdvanceTaxDue :: "jsDate \<Rightarrow> real \<Rightarrow> advanceTaxInfo" where
  "getAdvanceTaxDue today estimatedTax =
     (let currentYear = getFullYear today;
          currentMonth = getMonth today + 1;
          (percentageDue, nextDueDate) =
            (if currentMonth < 6 then
               (0, ''June 15, '' @ Number_toString currentYear)
             else if currentMonth < 9 then
               (0.15, ''September 15, '' @ Number_toString currentYear)
             else if currentMonth < 12 then
               (0.45, ''December 15, '' @ Number_toString currentYear)
             else
               (0.75, ''March 15, '' @ Number_toString (currentYear + 1)))
      in \<lparr>amountDue = Math_round (estimatedTax * percentageDue),
          nextDueDate = nextDueDate,
          percentageDue = percentageDue * 100\<rparr>)"

subsection \<open>calculateDeductions\<close>

text \<open>
  A deduction line; the field \<^verbatim>\<open>section\<close> of the source is \<open>sectionLabel\<close> here.
\<close>

record deduction =
  sectionLabel :: string
  amount :: real
  description :: string

record deductionPlan =
  recommendedDeductions :: "deduction list"
  totalDeductions :: real
  possibleSavings :: real
  taxableIncome :: real
  taxWithDeductions :: real

text \<open>
  The \<^verbatim>\<open>forEach\<close> over \<^verbatim>\<open>Object.entries(expenses)\<close>: the entries come in the object's
  enumeration order, and the callback updates the list of lines and the running total.
\<close>

definition forEachExpense ::
  "(string \<times> real) list \<Rightarrow> deduction list \<times> real \<Rightarrow> deduction list \<times> real" where
  "forEachExpense entries st =
     foldl (\<lambda>(deductions, totalDeductions) (category, amount).
              if amount > 0 then
                (deductions @
                   [\<lparr>sectionLabel = ''Business Expense'', amount = amount,
                     description = category @ '' - business expense''\<rparr>],
                 totalDeductions + amount)
              else (deductions, totalDeductions))
       st entries"

text \<open>
  \<open>expenses\<close> is \<open>None\<close> for a falsy argument (\<^verbatim>\<open>null\<close>, \<^verbatim>\<open>undefined\<close>) and the
  entries of the object otherwise.
\<close>

definition calculateDeductions :: "real \<Rightarrow> (string \<times> real) list option \<Rightarrow> deductionPlan" where
  "calculateDeductions income expenses =
     (let deductions = [];
          totalDeductions = (0::real);
          max80C = (150000::real);
          current80C = (0::real);
          (deductions, current80C) =
            (if income > 300000 then
               (let ppfAmount = min 50000 (max80C - current80C)
                in (deductions @
                      [\<lparr>sectionLabel = ''80C - PPF'', amount = ppfAmount,
                        description = ''Public Provident Fund contribution''\<rparr>],
                    current80C + ppfAmount))
             else (deductions, current80C));
          (deductions, current80C) =
            (if income > 400000 \<and> current80C < max80C then
               (let elssAmount = min 60000 (max80C - current80C)
                in (deductions @
                      [\<lparr>sectionLabel = ''80C - ELSS'', amount = elssAmount,
                        description = ''Equity Linked Savings Scheme''\<rparr>],
                    current80C + elssAmount))
             else (deductions, current80C));
          (deductions, current80C) =
            (if income > 500000 \<and> current80C < max80C then
               (let insuranceAmount = min 40000 (max80C - current80C)
                in (deductions @
                      [\<lparr>sectionLabel = ''80C - Life Insurance'', amount = insuranceAmount,
                        description = ''Life insurance premium''\<rparr>],
                    current80C + insuranceAmount))
             else (deductions, current80C));
          totalDeductions = totalDeductions + current80C;
          (deductions, totalDeductions) =
            (case expenses of
               None \<Rightarrow> (deductions, totalDeductions)
             | Some entries \<Rightarrow> forEachExpense entries (deductions, totalDeductions));
          homeOfficeAllowance = Math_round (income * 0.25);
          deductions = deductions @
            [\<lparr>sectionLabel = ''Home Office'', amount = homeOfficeAllowance,
              description = ''Home office allowance (25% of income)''\<rparr>];
          totalDeductions = totalDeductions + homeOfficeAllowance;
          taxWithoutDeductions = calculateIncomeTax income;
          taxableIncome = max 0 (income - totalDeductions);
          taxWithDeductions = calculateIncomeTax taxableIncome;
          possibleSavings = taxWithoutDeductions - taxWithDeductions
      in \<lparr>recommendedDeductions = deductions,
          totalDeductions = totalDeductions,
          possibleSavings = possibleSavings,
          taxableIncome = taxableIncome,
          taxWithDeductions = taxWithDeductions\<rparr>)"

subsection \<open>calculateTax\<close>

text \<open>
  The \<^verbatim>\<open>User\<close> and \<^verbatim>\<open>Income\<close> documents, with the fields the calculations read.
\<close>

record user =
  name :: string
  email :: string
  gstRegistered :: bool

record incomeRecord =
  clientName :: string
  amount :: real
  date :: jsDate
  tdsDeducted :: bool
  gstApplicable :: bool

text \<open>
  The two store lookups are parameters: \<open>userLookup\<close> is the result of
  \<^verbatim>\<open>User.findById\<close> and \<open>incomes\<close> the result of \<^verbatim>\<open>Income.find\<close>. A missing user raises,
  and the handler wraps the message. An entry of \<open>incomeBreakdown\<close> is the tuple of client
  name, amount, date, TDS flag and GST flag.
\<close>

record taxSummary =
  totalIncome :: real
  gstRequired :: bool
  tdsCollected :: real
  incomeTax :: real
  finalTaxPayable :: real
  advanceTaxDue :: real
  nextAdvanceTaxDue :: string
  incomeBreakdown :: "(string \<times> real \<times> jsDate \<times> bool \<times> bool) list"

definition calculateTax ::
  "user option \<Rightarrow> incomeRecord list \<Rightarrow> jsDate \<Rightarrow> string + taxSummary" where
  "calculateTax userLookup incomes today =
     (case userLookup of
        None \<Rightarrow> Inl ''Tax calculation failed: User not found''
      | Some user \<Rightarrow>
          (let totalIncome = foldl (\<lambda>sum income. sum + incomeRecord.amount income) 0 incomes;
               tdsCollected =
                 foldl (\<lambda>sum income. sum + applyTDS (incomeRecord.amount income)) 0
                   (filter tdsDeducted incomes);
               gstRequired = (gstRegistered user \<and> checkGSTThreshold totalIncome);
               incomeTax = calculateIncomeTax totalIncome;
               advanceTaxInfo = getAdvanceTaxDue today incomeTax;
               finalTaxPayable = max 0 (incomeTax - tdsCollected)
           in Inr \<lparr>totalIncome = totalIncome,
                   gstRequired = gstRequired,
                   tdsCollected = tdsCollected,
                   incomeTax = incomeTax,
                   finalTaxPayable = finalTaxPayable,
                   advanceTaxDue = amountDue advanceTaxInfo,
                   nextAdvanceTaxDue = nextDueDate advanceTaxInfo,
                   incomeBreakdown =
                     map (\<lambda>income. (incomeRecord.clientName income, incomeRecord.amount income,
                                      date income, tdsDeducted income,
                                      incomeRecord.gstApplicable income)) incomes\<rparr>))"

section \<open>TaxController: getTaxRegimeComparison\<close>

text \<open>
  \<open>query\<close> is the query parameter \<^verbatim>\<open>income\<close> read as a number, \<open>None\<close> when it is absent
  or empty. The response nests the two taxes as \<^verbatim>\<open>newRegime.tax\<close> and \<^verbatim>\<open>oldRegime.tax\<close>;
  they are the fields \<open>newRegimeTax\<close> and \<open>oldRegimeTax\<close> here, and the field \<^verbatim>\<open>income\<close>
  is \<open>comparedIncome\<close>. The two \<^verbatim>\<open>effectiveRate\<close> strings are left out.
\<close>

record regimeComparison =
  comparedIncome :: real
  newRegimeTax :: real
  oldRegimeTax :: real
  recommended :: string
  savings :: real

definition getTaxRegimeComparison :: "real option \<Rightarrow> httpError + regimeComparison" where
  "getTaxRegimeComparison query =
     (case query of
        None \<Rightarrow> Inl (BadRequest ''Valid income amount is required'')
      | Some incomeNum \<Rightarrow>
          if incomeNum \<le> 0 then Inl (BadRequest ''Valid income amount is required'')
          else
            (let newRegimeTax = calculateIncomeTax incomeNum;
                 taxableIncome = max 0 (incomeNum - 50000);
                 oldRegimeTax =
                   (if taxableIncome \<le> 250000 then 0
                    else if taxableIncome \<le> 500000 then (taxableIncome - 250000) * 0.05
                    else if taxableIncome \<le> 1000000 then 12500 + (taxableIncome - 500000) * 0.20
                    else 112500 + (taxableIncome - 1000000) * 0.30);
                 oldRegimeTax = Math_round (oldRegimeTax * 1.04)
             in Inr \<lparr>comparedIncome = incomeNum,
                     newRegimeTax = newRegimeTax,
                     oldRegimeTax = oldRegimeTax,
                     recommended =
                       (if newRegimeTax \<le> oldRegimeTax then ''New Regime'' else ''Old Regime''),
                     savings = \<bar>newRegimeTax - oldRegimeTax\<bar>\<rparr>))"

section \<open>Invoices\<close>

subsection \<open>InvoiceService.addInvoiceContent\<close>

text \<open>
  The service writes text lines into the PDF document. The model keeps the numbers that
  the amount block prints, not their \<^verbatim>\<open>toLocaleString\<close> rendering: the basic amount, the
  pair of TDS and net amount (printed only when \<^verbatim>\<open>tds\<close> is set), the pair of GST and total
  with GST (printed only when \<^verbatim>\<open>gstApplicable\<close> is set), and the total.
\<close>

record invoiceData =
  clientName :: string
  amount :: real
  gstApplicable :: bool
  tds :: bool

record invoiceContent =
  basicAmountLine :: real
  tdsLines :: "(real \<times> real) option"
  gstLines :: "(real \<times> real) option"
  totalAmountLine :: real

definition addInvoiceContent :: "invoiceData \<Rightarrow> invoiceContent" where
  "addInvoiceContent data =
     (let amount = invoiceData.amount data;
          gstApplicable = invoiceData.gstApplicable data;
          tds = invoiceData.tds data;
          tdsLines =
            (if tds then
               (let tdsAmount = Math_round (amount * 0.10)
                in Some (tdsAmount, amount - tdsAmount))
             else None);
          gstLines =
            (if gstApplicable then
               (let gstAmount = Math_round (amount * 0.18)
                in Some (gstAmount, amount + gstAmount))
             else None);
          totalAmount = amount;
          totalAmount =
            (if gstApplicable then totalAmount + Math_round (amount * 0.18) else totalAmount);
          totalAmount =
            (if tds then totalAmount - Math_round (amount * 0.10) else totalAmount)
      in \<lparr>basicAmountLine = amount,
          tdsLines = tdsLines,
          gstLines = gstLines,
          totalAmountLine = totalAmount\<rparr>)"

subsection \<open>InvoiceController.getInvoicePreview\<close>

text \<open>
  \<open>previewAmounts\<close> is the block of \<^verbatim>\<open>getInvoicePreview\<close> under the comment
  \<^verbatim>\<open>Calculate invoice amounts\<close>; the handler runs it after its two checks.
\<close>

record invoiceAmounts =
  basicAmount :: real
  gstAmount :: real
  tdsAmount :: real
  totalAmount :: real

definition previewAmounts :: "invoiceData \<Rightarrow> invoiceAmounts" where
  "previewAmounts data =
     (let amount = invoiceData.amount data;
          gstApplicable = invoiceData.gstApplicable data;
          tds = invoiceData.tds data;
          basicAmount = amount;
          gstAmount = (0::real);
          tdsAmount = (0::real);
          totalAmount = amount;
          (gstAmount, totalAmount) =
            (if gstApplicable then
               (let gstAmount = Math_round (amount * 0.18)
                in (gstAmount, totalAmount + gstAmount))
             else (gstAmount, totalAmount));
          (tdsAmount, totalAmount) =
            (if tds then
               (let tdsAmount = Math_round (amount * 0.10)
                in (tdsAmount, totalAmount - tdsAmount))
             else (tdsAmount, totalAmount))
      in \<lparr>basicAmount = basicAmount,
          gstAmount = gstAmount,
          tdsAmount = tdsAmount,
          totalAmount = totalAmount\<rparr>)"

text \<open>
  The request body carries the invoice data and the user id; a missing text field is the
  empty string and a missing amount is 0, which the first check rejects like the values
  themselves. \<open>now\<close> is the reading of \<^verbatim>\<open>Date.now()\<close>. The preview's \<^verbatim>\<open>date\<close> string and the
  echoed client name and flags are left out of the result.
\<close>

record invoicePreview =
  amounts :: invoiceAmounts
  invoiceNumber :: string

definition getInvoicePreview :: "int \<Rightarrow> invoiceData \<Rightarrow> string \<Rightarrow> httpError + invoicePreview" where
  "getInvoicePreview now data userId =
     (if invoiceData.clientName data = [] \<or> invoiceData.amount data = 0 \<or> userId = [] then
        Inl (BadRequest ''Client name, amount, and user ID are required'')
      else if invoiceData.amount data \<le> 0 then
        Inl (BadRequest ''Amount must be greater than 0'')
      else
        Inr \<lparr>amounts = previewAmounts data,
             invoiceNumber = ''INV-'' @ Number_toString now\<rparr>)"

section \<open>The specification's formulations\<close>

text \<open>
  The definitions of this section follow the words of the specification, not the code;
  the theorems below compare the code with them.
\<close>

text \<open>
  The part of an income \<open>x\<close> that lies in the band from \<open>lo\<close> to \<open>hi\<close>, and the
  progressive tax of the seven bands: each marginal rate applied to the part of the
  income in its band.
\<close>

definition bandPortion :: "real \<Rightarrow> real \<Rightarrow> real \<Rightarrow> real" where
  "bandPortion lo hi x = max 0 (min x hi - lo)"

definition progressiveSlabTax :: "real \<Rightarrow> real" where
  "progressiveSlabTax x =
     0 * bandPortion 0 250000 x
     + 0.05 * bandPortion 250000 500000 x
     + 0.10 * bandPortion 500000 750000 x
     + 0.15 * bandPortion 750000 1000000 x
     + 0.20 * bandPortion 1000000 1250000 x
     + 0.25 * bandPortion 1250000 1500000 x
     + 0.30 * max 0 (x - 1500000)"

text \<open>
  The old-regime reference figure: a flat standard deduction of 50,000, then the bands of
  0%, 5%, 20% and 30%, then the cess multiplier 1.04, rounded.
\<close>

definition oldRegimeSlabTax :: "real \<Rightarrow> real" where
  "oldRegimeSlabTax t =
     0 * bandPortion 0 250000 t
     + 0.05 * bandPortion 250000 500000 t
     + 0.20 * bandPortion 500000 1000000 t
     + 0.30 * max 0 (t - 1000000)"

definition oldRegimeReference :: "real \<Rightarrow> real" where
  "oldRegimeReference x = Math_round (oldRegimeSlabTax (max 0 (x - 50000)) * 1.04)"

text \<open>
  The greedy fill of a capped bucket: the candidates are taken in order; a candidate
  whose income threshold is exceeded, while the cap is not exhausted, adds a line of its
  limit or of what remains of the cap, whichever is smaller.
\<close>

fun cappedBucket ::
  "real \<Rightarrow> real \<Rightarrow> real \<Rightarrow> (real \<times> real \<times> string \<times> string) list \<Rightarrow> deduction list" where
  "cappedBucket x cap used [] = []"
| "cappedBucket x cap used ((threshold, limit, lbl, descr) # rest) =
     (if x > threshold \<and> used < cap then
        \<lparr>sectionLabel = lbl, amount = min limit (cap - used), description = descr\<rparr>
          # cappedBucket x cap (used + min limit (cap - used)) rest
      else cappedBucket x cap used rest)"

definition cappedCandidates :: "(real \<times> real \<times> string \<times> string) list" where
  "cappedCandidates =
     [(300000, 50000, ''80C - PPF'', ''Public Provident Fund contribution''),
      (400000, 60000, ''80C - ELSS'', ''Equity Linked Savings Scheme''),
      (500000, 40000, ''80C - Life Insurance'', ''Life insurance premium'')]"

definition businessLines :: "(string \<times> real) list \<Rightarrow> deduction list" where
  "businessLines entries =
     map (\<lambda>(category, a).
            \<lparr>sectionLabel = ''Business Expense'', amount = a,
             description = category @ '' - business expense''\<rparr>)
       (filter (\<lambda>(category, a). a > 0) entries)"

definition homeOfficeLine :: "real \<Rightarrow> deduction" where
  "homeOfficeLine x =
     \<lparr>sectionLabel = ''Home Office'', amount = Math_round (x * 0.25),
      description = ''Home office allowance (25% of income)''\<rparr>"

definition plannedLines :: "real \<Rightarrow> (string \<times> real) list option \<Rightarrow> deduction list" where
  "plannedLines x expenses =
     cappedBucket x 150000 0 cappedCandidates
     @ businessLines (case expenses of None \<Rightarrow> [] | Some entries \<Rightarrow> entries)
     @ [homeOfficeLine x]"

text \<open>The lines of a plan that belong to the capped bucket.\<close>

definition cappedLines :: "deduction list \<Rightarrow> deduction list" where
  "cappedLines ds = filter (\<lambda>d. take 3 (sectionLabel d) = ''80C'') ds"

definition businessExpenseLines :: "deduction list \<Rightarrow> deduction list" where
  "businessExpenseLines ds = filter (\<lambda>d. sectionLabel d = ''Business Expense'') ds"

definition lineTotal :: "deduction list \<Rightarrow> real" where
  "lineTotal ds = sum_list (map deduction.amount ds)"

section \<open>Rounding and the slab formula\<close>

lemma Math_round_near: "\<bar>Math_round x - x\<bar> \<le> 1 / 2"
  unfolding Math_round_def by linarith

lemma Math_round_mono: "x \<le> y \<Longrightarrow> Math_round x \<le> Math_round y"
  unfolding Math_round_def by (simp add: floor_mono)

lemma slabTax_mono: "x \<le> y \<Longrightarrow> slabTax x \<le> slabTax y"
  unfolding slabTax_def by (auto split: if_splits simp: diff_divide_distrib)

lemma slabTax_progressive: "slabTax x = progressiveSlabTax x"
  by (auto simp add: slabTax_def progressiveSlabTax_def bandPortion_def diff_divide_distrib)

lemma progressiveSlabTax_isCont: "isCont progressiveSlabTax b"
  unfolding progressiveSlabTax_def bandPortion_def
  by (intro continuous_intros)

lemma slabTax_isCont: "isCont slabTax b"
proof -
  have "slabTax = progressiveSlabTax"
    by (rule ext) (rule slabTax_progressive)
  then show ?thesis
    by (simp add: progressiveSlabTax_isCont)
qed

text \<open>
  Claim C1. For every income, \<open>calculateIncomeTax\<close> is the progressive tax of the seven
  bands (each marginal rate applied to the part of the income inside its band), rounded
  to the nearest whole unit: the result is an integer at most one half away from the
  unrounded tax. The cumulative totals at the band boundaries are 12,500, 37,500, 75,000,
  125,000 and 187,500, and the tax of 0, 250,000, 500,000, 1,000,000, 1,500,000 and
  2,000,000 is 0, 0, 12,500, 75,000, 187,500 and 337,500. The statement holds for negative
  incomes too, whose tax is 0.
\<close>

theorem calculateIncomeTax_progressive_slabs:
  "calculateIncomeTax x = Math_round (progressiveSlabTax x)
   \<and> (\<exists>n::int. calculateIncomeTax x = of_int n)
   \<and> \<bar>calculateIncomeTax x - progressiveSlabTax x\<bar> \<le> 1 / 2
   \<and> progressiveSlabTax 500000 = 12500
   \<and> progressiveSlabTax 750000 = 37500
   \<and> progressiveSlabTax 1000000 = 75000
   \<and> progressiveSlabTax 1250000 = 125000
   \<and> progressiveSlabTax 1500000 = 187500
   \<and> calculateIncomeTax 0 = 0
   \<and> calculateIncomeTax 250000 = 0
   \<and> calculateIncomeTax 500000 = 12500
   \<and> calculateIncomeTax 1000000 = 75000
   \<and> calculateIncomeTax 1500000 = 187500
   \<and> calculateIncomeTax 2000000 = 337500"
proof -
  have eq: "calculateIncomeTax x = Math_round (progressiveSlabTax x)"
    by (simp add: calculateIncomeTax_def slabTax_progressive)
  have whole: "\<exists>n::int. calculateIncomeTax x = of_int n"
    unfolding eq Math_round_def by blast
  have near: "\<bar>calculateIncomeTax x - progressiveSlabTax x\<bar> \<le> 1 / 2"
    unfolding eq by (rule Math_round_near)
  have offsets: "progressiveSlabTax 500000 = 12500" "progressiveSlabTax 750000 = 37500"
    "progressiveSlabTax 1000000 = 75000" "progressiveSlabTax 1250000 = 125000"
    "progressiveSlabTax 1500000 = 187500"
    by (simp_all add: progressiveSlabTax_def bandPortion_def)
  have vals: "calculateIncomeTax 0 = 0" "calculateIncomeTax 250000 = 0"
    "calculateIncomeTax 500000 = 12500" "calculateIncomeTax 1000000 = 75000"
    "calculateIncomeTax 1500000 = 187500" "calculateIncomeTax 2000000 = 337500"
    by (simp_all add: calculateIncomeTax_def slabTax_def Math_round_def)
  from eq whole near offsets vals show ?thesis
    by blast
qed

text \<open>
  Claim C7. For incomes \<open>0 \<le> x \<le> y\<close> the tax of \<open>x\<close> is at most the tax of \<open>y\<close>. At each
  of the six slab boundaries the value of the unrounded formula, which the code takes
  from the branch below the boundary, equals the expression of the branch above it at
  the boundary, and the unrounded formula is continuous there.
\<close>

theorem calculateIncomeTax_monotone_continuous:
  "(0 \<le> x \<and> x \<le> y \<longrightarrow> calculateIncomeTax x \<le> calculateIncomeTax y)
   \<and> slabTax 250000 = (250000 - 250000) * 0.05
   \<and> slabTax 500000 = 12500 + (500000 - 500000) * 0.10
   \<and> slabTax 750000 = 37500 + (750000 - 750000) * 0.15
   \<and> slabTax 1000000 = 75000 + (1000000 - 1000000) * 0.20
   \<and> slabTax 1250000 = 125000 + (1250000 - 1250000) * 0.25
   \<and> slabTax 1500000 = 187500 + (1500000 - 1500000) * 0.30
   \<and> isCont slabTax 250000 \<and> isCont slabTax 500000 \<and> isCont slabTax 750000
   \<and> isCont slabTax 1000000 \<and> isCont slabTax 1250000 \<and> isCont slabTax 1500000"
proof -
  have mono: "0 \<le> x \<and> x \<le> y \<longrightarrow> calculateIncomeTax x \<le> calculateIncomeTax y"
    by (simp add: calculateIncomeTax_def Math_round_mono slabTax_mono)
  have agree: "slabTax 250000 = (250000 - 250000) * 0.05"
    "slabTax 500000 = 12500 + (500000 - 500000) * 0.10"
    "slabTax 750000 = 37500 + (750000 - 750000) * 0.15"
    "slabTax 1000000 = 75000 + (1000000 - 1000000) * 0.20"
    "slabTax 1250000 = 125000 + (1250000 - 1250000) * 0.25"
    "slabTax 1500000 = 187500 + (1500000 - 1500000) * 0.30"
    by (simp_all add: slabTax_def)
  from mono agree show ?thesis
    by (simp only: slabTax_isCont simp_thms)
qed

theorem calculateIncomeTax_monotone_continuous_witness:
  "(0::real) \<le> 400000 \<and> (400000::real) \<le> 600000
   \<and> calculateIncomeTax 400000 \<le> calculateIncomeTax 600000"
  using calculateIncomeTax_monotone_continuous [of 400000 600000] by simp

section \<open>The deduction plan\<close>

lemma forEachExpense_lines:
  "forEachExpense entries (ds, t) = (ds @ businessLines entries, t + lineTotal (businessLines entries))"
proof (induction entries arbitrary: ds t)
  case Nil
  then show ?case by (simp add: forEachExpense_def businessLines_def lineTotal_def)
next
  case (Cons e es)
  obtain c a where e: "e = (c, a)" by (cases e)
  have step: "forEachExpense (e # es) (ds, t) =
      forEachExpense es (if a > 0 then (ds @ [\<lparr>sectionLabel = ''Business Expense'', amount = a,
                     description = c @ '' - business expense''\<rparr>], t + a) else (ds, t))"
    by (simp add: forEachExpense_def e)
  show ?case
    unfolding step using Cons.IH
    by (simp add: businessLines_def lineTotal_def e)
qed

lemma cappedBucket_explicit:
  "cappedBucket x 150000 0 cappedCandidates =
     (if x > 300000 then
        [\<lparr>sectionLabel = ''80C - PPF'', amount = 50000,
          description = ''Public Provident Fund contribution''\<rparr>] else [])
     @ (if x > 400000 then
        [\<lparr>sectionLabel = ''80C - ELSS'', amount = 60000,
          description = ''Equity Linked Savings Scheme''\<rparr>] else [])
     @ (if x > 500000 then
        [\<lparr>sectionLabel = ''80C - Life Insurance'', amount = 40000,
          description = ''Life insurance premium''\<rparr>] else [])"
  by (simp add: cappedCandidates_def)

lemma cappedLines_businessLines: "cappedLines (businessLines es) = []"
  by (induction es) (auto simp: cappedLines_def businessLines_def)


lemma calculateDeductions_plan:
  "calculateDeductions x e =
     \<lparr>recommendedDeductions = plannedLines x e,
      totalDeductions = lineTotal (plannedLines x e),
      possibleSavings =
        calculateIncomeTax x - calculateIncomeTax (max 0 (x - lineTotal (plannedLines x e))),
      taxableIncome = max 0 (x - lineTotal (plannedLines x e)),
      taxWithDeductions = calculateIncomeTax (max 0 (x - lineTotal (plannedLines x e)))\<rparr>"
proof -
  let ?es = "case e of None \<Rightarrow> [] | Some entries \<Rightarrow> entries"
  have loop: "\<And>ds t. (case e of None \<Rightarrow> (ds, t) | Some entries \<Rightarrow> forEachExpense entries (ds, t))
      = (ds @ businessLines ?es, t + lineTotal (businessLines ?es))"
    by (cases e) (simp_all add: forEachExpense_lines businessLines_def lineTotal_def)
  have total: "lineTotal (plannedLines x e) =
      lineTotal (cappedBucket x 150000 0 cappedCandidates) + lineTotal (businessLines ?es)
        + Math_round (x * 0.25)"
    by (simp add: plannedLines_def lineTotal_def homeOfficeLine_def)
  show ?thesis
    unfolding calculateDeductions_def Let_def loop total
    by (simp add: plannedLines_def cappedBucket_explicit homeOfficeLine_def lineTotal_def)
qed


lemma calculateDeductions_example:
  "calculateDeductions 450000 (Some [(''laptop'', 40000), (''internet'', 12000)]) =
     \<lparr>recommendedDeductions =
        [\<lparr>sectionLabel = ''80C - PPF'', amount = 50000,
          description = ''Public Provident Fund contribution''\<rparr>,
         \<lparr>sectionLabel = ''80C - ELSS'', amount = 60000,
          description = ''Equity Linked Savings Scheme''\<rparr>,
         \<lparr>sectionLabel = ''Business Expense'', amount = 40000,
          description = ''laptop - business expense''\<rparr>,
         \<lparr>sectionLabel = ''Business Expense'', amount = 12000,
          description = ''internet - business expense''\<rparr>,
         \<lparr>sectionLabel = ''Home Office'', amount = 112500,
          description = ''Home office allowance (25% of income)''\<rparr>],
      totalDeductions = 274500,
      possibleSavings = 10000,
      taxableIncome = 175500,
      taxWithDeductions = 0\<rparr>"
proof -
  have lines: "plannedLines 450000 (Some [(''laptop'', 40000), (''internet'', 12000)]) =
        [\<lparr>sectionLabel = ''80C - PPF'', amount = 50000,
          description = ''Public Provident Fund contribution''\<rparr>,
         \<lparr>sectionLabel = ''80C - ELSS'', amount = 60000,
          description = ''Equity Linked Savings Scheme''\<rparr>,
         \<lparr>sectionLabel = ''Business Expense'', amount = 40000,
          description = ''laptop - business expense''\<rparr>,
         \<lparr>sectionLabel = ''Business Expense'', amount = 12000,
          description = ''internet - business expense''\<rparr>,
         \<lparr>sectionLabel = ''Home Office'', amount = 112500,
          description = ''Home office allowance (25% of income)''\<rparr>]"
    by (simp add: plannedLines_def cappedBucket_explicit businessLines_def homeOfficeLine_def
        Math_round_def)
  have taxes: "calculateIncomeTax 450000 = 10000" "calculateIncomeTax 175500 = 0"
    by (simp_all add: calculateIncomeTax_def slabTax_def Math_round_def)
  show ?thesis
    unfolding calculateDeductions_plan lines
    by (simp add: lineTotal_def taxes)
qed

text \<open>
  Claim C2, as stated, at income 450,000 with expenses laptop 40,000 and internet 12,000:
  the capped bucket holds only the PPF line of 50,000, the business lines total 52,000,
  the home-office line is 112,500, the total is 214,500, the taxable income 235,500 and
  the possible savings 10,000. The code does not do this: 450,000 exceeds 400,000, so the
  ELSS line of 60,000 is added as well.
\<close>

theorem calculateDeductions_450000_counterexample:
  "\<not> (cappedLines (recommendedDeductions
          (calculateDeductions 450000 (Some [(''laptop'', 40000), (''internet'', 12000)]))) =
        [\<lparr>sectionLabel = ''80C - PPF'', amount = 50000,
          description = ''Public Provident Fund contribution''\<rparr>]
      \<and> lineTotal (businessExpenseLines (recommendedDeductions
          (calculateDeductions 450000 (Some [(''laptop'', 40000), (''internet'', 12000)])))) = 52000
      \<and> deduction.amount (last (recommendedDeductions
          (calculateDeductions 450000 (Some [(''laptop'', 40000), (''internet'', 12000)])))) = 112500
      \<and> totalDeductions
          (calculateDeductions 450000 (Some [(''laptop'', 40000), (''internet'', 12000)])) = 214500
      \<and> taxableIncome
          (calculateDeductions 450000 (Some [(''laptop'', 40000), (''internet'', 12000)])) = 235500
      \<and> possibleSavings
          (calculateDeductions 450000 (Some [(''laptop'', 40000), (''internet'', 12000)])) = 10000)"
  by (simp add: calculateDeductions_example)

text \<open>
  Claim C2, amended. At income 450,000 with expenses laptop 40,000 and internet 12,000 the
  plan lists the PPF line of 50,000 and the ELSS line of 60,000 (a capped-bucket
  contribution of 110,000), the two business lines totalling 52,000 and the home-office
  line of round(450000 * 0.25) = 112,500, in this order; the total is 274,500, the taxable
  income 175,500, and the possible savings are the tax of 450,000 less the tax of 175,500,
  that is 10,000 - 0 = 10,000.
\<close>

theorem calculateDeductions_450000:
  "recommendedDeductions
      (calculateDeductions 450000 (Some [(''laptop'', 40000), (''internet'', 12000)])) =
     [\<lparr>sectionLabel = ''80C - PPF'', amount = 50000,
       description = ''Public Provident Fund contribution''\<rparr>,
      \<lparr>sectionLabel = ''80C - ELSS'', amount = 60000,
       description = ''Equity Linked Savings Scheme''\<rparr>,
      \<lparr>sectionLabel = ''Business Expense'', amount = 40000,
       description = ''laptop - business expense''\<rparr>,
      \<lparr>sectionLabel = ''Business Expense'', amount = 12000,
       description = ''internet - business expense''\<rparr>,
      \<lparr>sectionLabel = ''Home Office'', amount = 112500,
       description = ''Home office allowance (25% of income)''\<rparr>]
   \<and> lineTotal (cappedLines (recommendedDeductions
        (calculateDeductions 450000 (Some [(''laptop'', 40000), (''internet'', 12000)])))) = 110000
   \<and> lineTotal (businessExpenseLines (recommendedDeductions
        (calculateDeductions 450000 (Some [(''laptop'', 40000), (''internet'', 12000)])))) = 52000
   \<and> Math_round (450000 * 0.25) = 112500
   \<and> totalDeductions
        (calculateDeductions 450000 (Some [(''laptop'', 40000), (''internet'', 12000)])) = 274500
   \<and> taxableIncome
        (calculateDeductions 450000 (Some [(''laptop'', 40000), (''internet'', 12000)])) = 175500
   \<and> calculateIncomeTax 450000 = 10000
   \<and> calculateIncomeTax 175500 = 0
   \<and> possibleSavings
        (calculateDeductions 450000 (Some [(''laptop'', 40000), (''internet'', 12000)])) = 10000"
proof -
  have taxes: "calculateIncomeTax 450000 = 10000" "calculateIncomeTax 175500 = 0"
    by (simp_all add: calculateIncomeTax_def slabTax_def Math_round_def)
  show ?thesis
    unfolding calculateDeductions_example
    by (simp add: taxes Math_round_def cappedLines_def businessExpenseLines_def lineTotal_def)
qed

text \<open>
  Claim C4. For every income and expense mapping the lines of the plan are, in this
  order, the greedy fill of the 150,000 cap by the three candidates (50,000 above an
  income of 300,000, 60,000 above 400,000, 40,000 above 500,000, each limited by what
  remains of the cap, which never binds), one business line for each expense entry with a
  positive amount, and the home-office line of round(income * 0.25). The total is the sum
  of the lines, the taxable income is max(0, income - total), the possible savings are the
  tax of the income less the tax of the taxable income, and an income of at most 300,000
  has no capped-bucket line.
\<close>

theorem calculateDeductions_greedy:
  "recommendedDeductions (calculateDeductions x e) =
     cappedBucket x 150000 0 cappedCandidates
     @ businessLines (case e of None \<Rightarrow> [] | Some entries \<Rightarrow> entries)
     @ [homeOfficeLine x]
   \<and> cappedBucket x 150000 0 cappedCandidates =
       (if x > 300000 then
          [\<lparr>sectionLabel = ''80C - PPF'', amount = 50000,
            description = ''Public Provident Fund contribution''\<rparr>] else [])
       @ (if x > 400000 then
          [\<lparr>sectionLabel = ''80C - ELSS'', amount = 60000,
            description = ''Equity Linked Savings Scheme''\<rparr>] else [])
       @ (if x > 500000 then
          [\<lparr>sectionLabel = ''80C - Life Insurance'', amount = 40000,
            description = ''Life insurance premium''\<rparr>] else [])
   \<and> deduction.amount (homeOfficeLine x) = Math_round (x * 0.25)
   \<and> totalDeductions (calculateDeductions x e) =
       lineTotal (recommendedDeductions (calculateDeductions x e))
   \<and> taxableIncome (calculateDeductions x e) =
       max 0 (x - totalDeductions (calculateDeductions x e))
   \<and> possibleSavings (calculateDeductions x e) =
       calculateIncomeTax x - calculateIncomeTax (taxableIncome (calculateDeductions x e))
   \<and> (x \<le> 300000 \<longrightarrow> cappedLines (recommendedDeductions (calculateDeductions x e)) = [])"
proof -
  have none: "x \<le> 300000 \<longrightarrow> cappedLines (plannedLines x e) = []"
  proof
    assume "x \<le> 300000"
    then have "cappedBucket x 150000 0 cappedCandidates = []"
      by (simp add: cappedBucket_explicit)
    then have "cappedLines (plannedLines x e) =
        cappedLines (businessLines (case e of None \<Rightarrow> [] | Some entries \<Rightarrow> entries))"
      by (simp add: plannedLines_def cappedLines_def homeOfficeLine_def)
    then show "cappedLines (plannedLines x e) = []"
      by (simp only: cappedLines_businessLines)
  qed
  have home: "deduction.amount (homeOfficeLine x) = Math_round (x * 0.25)"
    by (simp add: homeOfficeLine_def)
  from none home show ?thesis
    unfolding calculateDeductions_plan
    by (simp add: plannedLines_def cappedBucket_explicit)
qed

theorem calculateDeductions_greedy_witness:
  "(250000::real) \<le> 300000
   \<and> cappedLines (recommendedDeductions
        (calculateDeductions 250000 (Some [(''laptop'', 40000)]))) = []"
proof -
  have "(250000::real) \<le> 300000"
    by simp
  with calculateDeductions_greedy [of 250000 "Some [(''laptop'', 40000)]"] show ?thesis
    by blast
qed

section \<open>The advance-tax schedule\<close>

lemma getAdvanceTaxDue_amountDue:
  "amountDue (getAdvanceTaxDue today t) =
     Math_round (t * (percentageDue (getAdvanceTaxDue today t) / 100))"
  by (simp add: getAdvanceTaxDue_def Let_def mult.commute)

text \<open>
  Claim C5. With \<open>m\<close> the current month (the zero-based month of the clock plus one) and
  \<open>t\<close> the estimated tax, \<open>getAdvanceTaxDue\<close> returns 0% and the label "June 15, year"
  for January to May, 15% and "September 15, year" for June to August, 45% and
  "December 15, year" for September to November, and 75% and "March 15, year + 1" for
  December; the amount due is the rounded product of \<open>t\<close> and the percentage. In July
  with an estimated tax of 10,000 the amount due is 1,500 and the label is
  "September 15, year".
\<close>

theorem getAdvanceTaxDue_schedule:
  "(1 \<le> getMonth today + 1 \<and> getMonth today + 1 \<le> 5 \<longrightarrow>
      percentageDue (getAdvanceTaxDue today t) = 0
      \<and> nextDueDate (getAdvanceTaxDue today t) =
          ''June 15, '' @ Number_toString (getFullYear today))
   \<and> (6 \<le> getMonth today + 1 \<and> getMonth today + 1 \<le> 8 \<longrightarrow>
      percentageDue (getAdvanceTaxDue today t) = 15
      \<and> nextDueDate (getAdvanceTaxDue today t) =
          ''September 15, '' @ Number_toString (getFullYear today))
   \<and> (9 \<le> getMonth today + 1 \<and> getMonth today + 1 \<le> 11 \<longrightarrow>
      percentageDue (getAdvanceTaxDue today t) = 45
      \<and> nextDueDate (getAdvanceTaxDue today t) =
          ''December 15, '' @ Number_toString (getFullYear today))
   \<and> (getMonth today + 1 = 12 \<longrightarrow>
      percentageDue (getAdvanceTaxDue today t) = 75
      \<and> nextDueDate (getAdvanceTaxDue today t) =
          ''March 15, '' @ Number_toString (getFullYear today + 1))
   \<and> amountDue (getAdvanceTaxDue today t) =
       Math_round (t * (percentageDue (getAdvanceTaxDue today t) / 100))
   \<and> amountDue (getAdvanceTaxDue \<lparr>getFullYear = y, getMonth = 6\<rparr> 10000) = 1500
   \<and> nextDueDate (getAdvanceTaxDue \<lparr>getFullYear = y, getMonth = 6\<rparr> 10000) =
       ''September 15, '' @ Number_toString y"
proof -
  have july: "amountDue (getAdvanceTaxDue \<lparr>getFullYear = y, getMonth = 6\<rparr> 10000) = 1500"
    "nextDueDate (getAdvanceTaxDue \<lparr>getFullYear = y, getMonth = 6\<rparr> 10000) =
       ''September 15, '' @ Number_toString y"
    by (simp_all add: getAdvanceTaxDue_def Math_round_def)
  have months: "1 \<le> getMonth today + 1 \<and> getMonth today + 1 \<le> 5 \<longrightarrow>
      percentageDue (getAdvanceTaxDue today t) = 0
      \<and> nextDueDate (getAdvanceTaxDue today t) =
          ''June 15, '' @ Number_toString (getFullYear today)"
    "6 \<le> getMonth today + 1 \<and> getMonth today + 1 \<le> 8 \<longrightarrow>
      percentageDue (getAdvanceTaxDue today t) = 15
      \<and> nextDueDate (getAdvanceTaxDue today t) =
          ''September 15, '' @ Number_toString (getFullYear today)"
    "9 \<le> getMonth today + 1 \<and> getMonth today + 1 \<le> 11 \<longrightarrow>
      percentageDue (getAdvanceTaxDue today t) = 45
      \<and> nextDueDate (getAdvanceTaxDue today t) =
          ''December 15, '' @ Number_toString (getFullYear today)"
    "getMonth today + 1 = 12 \<longrightarrow>
      percentageDue (getAdvanceTaxDue today t) = 75
      \<and> nextDueDate (getAdvanceTaxDue today t) =
          ''March 15, '' @ Number_toString (getFullYear today + 1)"
    by (simp_all add: getAdvanceTaxDue_def Let_def)
  from months july getAdvanceTaxDue_amountDue [of today t] show ?thesis
    by blast
qed

lemma Number_toString_2026: "Number_toString 2026 = ''2026''" "Number_toString 2027 = ''2027''"
  by (simp_all add: Number_toString_def digits.simps)

theorem getAdvanceTaxDue_schedule_witness:
  "nextDueDate (getAdvanceTaxDue \<lparr>getFullYear = 2026, getMonth = 2\<rparr> 10000) = ''June 15, 2026''
   \<and> percentageDue (getAdvanceTaxDue \<lparr>getFullYear = 2026, getMonth = 2\<rparr> 10000) = 0
   \<and> nextDueDate (getAdvanceTaxDue \<lparr>getFullYear = 2026, getMonth = 6\<rparr> 10000) = ''September 15, 2026''
   \<and> percentageDue (getAdvanceTaxDue \<lparr>getFullYear = 2026, getMonth = 6\<rparr> 10000) = 15
   \<and> amountDue (getAdvanceTaxDue \<lparr>getFullYear = 2026, getMonth = 6\<rparr> 10000) = 1500
   \<and> nextDueDate (getAdvanceTaxDue \<lparr>getFullYear = 2026, getMonth = 9\<rparr> 10000) = ''December 15, 2026''
   \<and> percentageDue (getAdvanceTaxDue \<lparr>getFullYear = 2026, getMonth = 9\<rparr> 10000) = 45
   \<and> nextDueDate (getAdvanceTaxDue \<lparr>getFullYear = 2026, getMonth = 11\<rparr> 10000) = ''March 15, 2027''
   \<and> percentageDue (getAdvanceTaxDue \<lparr>getFullYear = 2026, getMonth = 11\<rparr> 10000) = 75"
  using getAdvanceTaxDue_schedule [of "\<lparr>getFullYear = 2026, getMonth = 2\<rparr>" 10000 2026]
    getAdvanceTaxDue_schedule [of "\<lparr>getFullYear = 2026, getMonth = 6\<rparr>" 10000 2026]
    getAdvanceTaxDue_schedule [of "\<lparr>getFullYear = 2026, getMonth = 9\<rparr>" 10000 2026]
    getAdvanceTaxDue_schedule [of "\<lparr>getFullYear = 2026, getMonth = 11\<rparr>" 10000 2026]
  by (simp add: Number_toString_2026 Math_round_def)

section \<open>Invoice amounts\<close>

lemma previewAmounts_eq:
  "previewAmounts \<lparr>clientName = c, amount = a, gstApplicable = g, tds = t\<rparr> =
     \<lparr>basicAmount = a,
      gstAmount = (if g then Math_round (a * 0.18) else 0),
      tdsAmount = (if t then Math_round (a * 0.10) else 0),
      totalAmount =
        a + (if g then Math_round (a * 0.18) else 0) - (if t then Math_round (a * 0.10) else 0)\<rparr>"
  by (simp add: previewAmounts_def Let_def)

lemma addInvoiceContent_eq:
  "addInvoiceContent \<lparr>clientName = c, amount = a, gstApplicable = g, tds = t\<rparr> =
     \<lparr>basicAmountLine = a,
      tdsLines =
        (if t then Some (Math_round (a * 0.10), a - Math_round (a * 0.10)) else None),
      gstLines =
        (if g then Some (Math_round (a * 0.18), a + Math_round (a * 0.18)) else None),
      totalAmountLine =
        a + (if g then Math_round (a * 0.18) else 0) - (if t then Math_round (a * 0.10) else 0)\<rparr>"
  by (simp add: addInvoiceContent_def Let_def)

text \<open>
  Claim C3. For every amount and every pair of flags, the amount block of the PDF path
  and the calculation of the preview path agree: the total is the amount, plus the
  rounded 18% when GST applies, less the rounded 10% when TDS is deducted, on both paths;
  the GST and TDS amounts that the PDF prints when the flag is set are the preview's, and
  the preview reports 0 for a flag that is not set, where the PDF prints no line.
\<close>

theorem invoice_paths_agree:
  "totalAmountLine (addInvoiceContent \<lparr>clientName = c, amount = a, gstApplicable = g, tds = t\<rparr>) =
     totalAmount (previewAmounts \<lparr>clientName = c, amount = a, gstApplicable = g, tds = t\<rparr>)
   \<and> totalAmount (previewAmounts \<lparr>clientName = c, amount = a, gstApplicable = g, tds = t\<rparr>) =
       a + (if g then Math_round (a * 0.18) else 0) - (if t then Math_round (a * 0.10) else 0)
   \<and> gstAmount (previewAmounts \<lparr>clientName = c, amount = a, gstApplicable = g, tds = t\<rparr>) =
       (if g then Math_round (a * 0.18) else 0)
   \<and> tdsAmount (previewAmounts \<lparr>clientName = c, amount = a, gstApplicable = g, tds = t\<rparr>) =
       (if t then Math_round (a * 0.10) else 0)
   \<and> gstLines (addInvoiceContent \<lparr>clientName = c, amount = a, gstApplicable = g, tds = t\<rparr>) =
       (if g then
          Some (gstAmount (previewAmounts \<lparr>clientName = c, amount = a, gstApplicable = g, tds = t\<rparr>),
                a + gstAmount (previewAmounts \<lparr>clientName = c, amount = a, gstApplicable = g, tds = t\<rparr>))
        else None)
   \<and> tdsLines (addInvoiceContent \<lparr>clientName = c, amount = a, gstApplicable = g, tds = t\<rparr>) =
       (if t then
          Some (tdsAmount (previewAmounts \<lparr>clientName = c, amount = a, gstApplicable = g, tds = t\<rparr>),
                a - tdsAmount (previewAmounts \<lparr>clientName = c, amount = a, gstApplicable = g, tds = t\<rparr>))
        else None)
   \<and> basicAmountLine (addInvoiceContent \<lparr>clientName = c, amount = a, gstApplicable = g, tds = t\<rparr>) =
       basicAmount (previewAmounts \<lparr>clientName = c, amount = a, gstApplicable = g, tds = t\<rparr>)"
  unfolding previewAmounts_eq addInvoiceContent_eq
  by simp

text \<open>
  Claim C6. For every positive amount (in a request that names a client and a user) the
  preview answers with the basic amount equal to the amount, the TDS amount
  round(amount * 0.10) when the TDS flag is set and 0 otherwise, the GST amount
  round(amount * 0.18) when GST applies and 0 otherwise, and the total
  amount + GST amount - TDS amount. For the amount 50,000 with both flags set the TDS
  amount is 5,000, the GST amount 9,000 and the total 54,000, on the preview path and in
  the PDF's amount block.
\<close>

theorem getInvoicePreview_amounts:
  "(0 < a \<and> c \<noteq> [] \<and> u \<noteq> [] \<longrightarrow>
      getInvoicePreview now \<lparr>clientName = c, amount = a, gstApplicable = g, tds = t\<rparr> u =
        Inr \<lparr>amounts =
               \<lparr>basicAmount = a,
                gstAmount = (if g then Math_round (a * 0.18) else 0),
                tdsAmount = (if t then Math_round (a * 0.10) else 0),
                totalAmount =
                  a + (if g then Math_round (a * 0.18) else 0)
                    - (if t then Math_round (a * 0.10) else 0)\<rparr>,
             invoiceNumber = ''INV-'' @ Number_toString now\<rparr>)
   \<and> previewAmounts \<lparr>clientName = c, amount = 50000, gstApplicable = True, tds = True\<rparr> =
       \<lparr>basicAmount = 50000, gstAmount = 9000, tdsAmount = 5000, totalAmount = 54000\<rparr>
   \<and> addInvoiceContent \<lparr>clientName = c, amount = 50000, gstApplicable = True, tds = True\<rparr> =
       \<lparr>basicAmountLine = 50000, tdsLines = Some (5000, 45000), gstLines = Some (9000, 59000),
        totalAmountLine = 54000\<rparr>"
proof -
  have ex: "previewAmounts \<lparr>clientName = c, amount = 50000, gstApplicable = True, tds = True\<rparr> =
       \<lparr>basicAmount = 50000, gstAmount = 9000, tdsAmount = 5000, totalAmount = 54000\<rparr>"
    by (simp add: previewAmounts_eq Math_round_def)
  have pdf: "addInvoiceContent \<lparr>clientName = c, amount = 50000, gstApplicable = True, tds = True\<rparr> =
       \<lparr>basicAmountLine = 50000, tdsLines = Some (5000, 45000), gstLines = Some (9000, 59000),
        totalAmountLine = 54000\<rparr>"
    by (simp add: addInvoiceContent_eq Math_round_def)
  show ?thesis
    unfolding ex pdf
    by (simp add: getInvoicePreview_def previewAmounts_eq)
qed

lemma Number_toString_sample: "Number_toString 1700000000000 = ''1700000000000''"
  by (simp add: Number_toString_def digits.simps)

theorem getInvoicePreview_amounts_witness:
  "(0::real) < 50000 \<and> ''Acme'' \<noteq> [] \<and> ''u1'' \<noteq> []
   \<and> getInvoicePreview 1700000000000
        \<lparr>clientName = ''Acme'', amount = 50000, gstApplicable = True, tds = True\<rparr> ''u1'' =
      Inr \<lparr>amounts =
             \<lparr>basicAmount = 50000, gstAmount = 9000, tdsAmount = 5000, totalAmount = 54000\<rparr>,
           invoiceNumber = ''INV-1700000000000''\<rparr>"
  using getInvoicePreview_amounts [of 50000 "''Acme''" "''u1''" 1700000000000 True True]
  by (simp add: Number_toString_sample Math_round_def)

section \<open>The regime comparison\<close>

lemma oldRegime_bands:
  "(if t \<le> 250000 then 0
    else if t \<le> 500000 then (t - 250000) * 0.05
    else if t \<le> 1000000 then 12500 + (t - 500000) * 0.20
    else 112500 + (t - 1000000) * 0.30) = oldRegimeSlabTax t"
  by (auto simp add: oldRegimeSlabTax_def bandPortion_def diff_divide_distrib)

lemma getTaxRegimeComparison_eq:
  "0 < x \<Longrightarrow>
   getTaxRegimeComparison (Some x) =
     Inr \<lparr>comparedIncome = x,
          newRegimeTax = calculateIncomeTax x,
          oldRegimeTax = oldRegimeReference x,
          recommended =
            (if calculateIncomeTax x \<le> oldRegimeReference x then ''New Regime''
             else ''Old Regime''),
          savings = \<bar>calculateIncomeTax x - oldRegimeReference x\<bar>\<rparr>"
  unfolding getTaxRegimeComparison_def Let_def oldRegime_bands oldRegimeReference_def
  by simp

text \<open>
  Claim C8. For a positive income the regime comparison reports the new-regime tax of
  \<open>calculateIncomeTax\<close> and an old-regime tax that subtracts a flat 50,000, applies the
  bands of 0% up to 250,000, 5% up to 500,000, 20% up to 1,000,000 and 30% above (with
  cumulative totals 12,500 and 112,500), multiplies by 1.04 and rounds; it recommends
  "New Regime" exactly when the new-regime tax is at most the old-regime tax and
  "Old Regime" otherwise, and the savings are the absolute difference. For the income
  800,000 the taxes are 45,000 and 65,000, the recommendation is "New Regime" and the
  savings are 20,000.
\<close>

theorem getTaxRegimeComparison_regimes:
  "(0 < x \<longrightarrow>
      (\<exists>r. getTaxRegimeComparison (Some x) = Inr r
         \<and> newRegimeTax r = calculateIncomeTax x
         \<and> oldRegimeTax r = oldRegimeReference x
         \<and> (recommended r = ''New Regime'') = (newRegimeTax r \<le> oldRegimeTax r)
         \<and> (recommended r = ''Old Regime'') = (\<not> newRegimeTax r \<le> oldRegimeTax r)
         \<and> savings r = \<bar>newRegimeTax r - oldRegimeTax r\<bar>))
   \<and> oldRegimeSlabTax 250000 = 0
   \<and> oldRegimeSlabTax 500000 = 12500
   \<and> oldRegimeSlabTax 1000000 = 112500
   \<and> getTaxRegimeComparison (Some 800000) =
       Inr \<lparr>comparedIncome = 800000, newRegimeTax = 45000, oldRegimeTax = 65000,
            recommended = ''New Regime'', savings = 20000\<rparr>"
proof -
  have general: "0 < x \<longrightarrow>
      (\<exists>r. getTaxRegimeComparison (Some x) = Inr r
         \<and> newRegimeTax r = calculateIncomeTax x
         \<and> oldRegimeTax r = oldRegimeReference x
         \<and> (recommended r = ''New Regime'') = (newRegimeTax r \<le> oldRegimeTax r)
         \<and> (recommended r = ''Old Regime'') = (\<not> newRegimeTax r \<le> oldRegimeTax r)
         \<and> savings r = \<bar>newRegimeTax r - oldRegimeTax r\<bar>)"
    by (simp add: getTaxRegimeComparison_eq)
  have offsets: "oldRegimeSlabTax 250000 = 0" "oldRegimeSlabTax 500000 = 12500"
    "oldRegimeSlabTax 1000000 = 112500"
    by (simp_all add: oldRegimeSlabTax_def bandPortion_def)
  have new: "calculateIncomeTax 800000 = 45000"
    by (simp add: calculateIncomeTax_def slabTax_def Math_round_def)
  have old: "oldRegimeReference 800000 = 65000"
    by (simp add: oldRegimeReference_def oldRegimeSlabTax_def bandPortion_def Math_round_def)
  have sample: "getTaxRegimeComparison (Some 800000) =
       Inr \<lparr>comparedIncome = 800000, newRegimeTax = 45000, oldRegimeTax = 65000,
            recommended = ''New Regime'', savings = 20000\<rparr>"
    by (simp add: getTaxRegimeComparison_eq new old)
  from general offsets sample show ?thesis
    by blast
qed

theorem getTaxRegimeComparison_regimes_witness:
  "(0::real) < 600000
   \<and> (\<exists>r. getTaxRegimeComparison (Some 600000) = Inr r
        \<and> newRegimeTax r = 22500 \<and> oldRegimeTax r = 23400
        \<and> recommended r = ''New Regime'' \<and> savings r = 900)"
proof -
  have new: "calculateIncomeTax 600000 = 22500"
    by (simp add: calculateIncomeTax_def slabTax_def Math_round_def)
  have old: "oldRegimeReference 600000 = 23400"
    by (simp add: oldRegimeReference_def oldRegimeSlabTax_def bandPortion_def Math_round_def)
  have pos: "(0::real) < 600000"
    by simp
  from getTaxRegimeComparison_regimes [of 600000] pos
  obtain r where r: "getTaxRegimeComparison (Some 600000) = Inr r"
      "newRegimeTax r = calculateIncomeTax 600000"
      "oldRegimeTax r = oldRegimeReference 600000"
      "(recommended r = ''New Regime'') = (newRegimeTax r \<le> oldRegimeTax r)"
      "savings r = \<bar>newRegimeTax r - oldRegimeTax r\<bar>"
    by blast
  from r have "newRegimeTax r = 22500 \<and> oldRegimeTax r = 23400
        \<and> recommended r = ''New Regime'' \<and> savings r = 900"
    by (simp add: new old)
  with r(1) pos show ?thesis
    by blast
qed

section \<open>The tax summary\<close>

lemma foldl_plus_sum_list:
  "foldl (\<lambda>sum i. sum + f i) a xs = a + sum_list (map f xs)"
  for a :: real
  by (induction xs arbitrary: a) simp_all

lemma calculateTax_found:
  "calculateTax (Some u) incomes today =
     Inr \<lparr>totalIncome = sum_list (map incomeRecord.amount incomes),
          gstRequired =
            (gstRegistered u \<and> checkGSTThreshold (sum_list (map incomeRecord.amount incomes))),
          tdsCollected =
            sum_list (map (\<lambda>i. applyTDS (incomeRecord.amount i)) (filter tdsDeducted incomes)),
          incomeTax = calculateIncomeTax (sum_list (map incomeRecord.amount incomes)),
          finalTaxPayable =
            max 0 (calculateIncomeTax (sum_list (map incomeRecord.amount incomes))
                   - sum_list (map (\<lambda>i. applyTDS (incomeRecord.amount i))
                        (filter tdsDeducted incomes))),
          advanceTaxDue =
            amountDue (getAdvanceTaxDue today
              (calculateIncomeTax (sum_list (map incomeRecord.amount incomes)))),
          nextAdvanceTaxDue =
            nextDueDate (getAdvanceTaxDue today
              (calculateIncomeTax (sum_list (map incomeRecord.amount incomes)))),
          incomeBreakdown =
            map (\<lambda>income. (incomeRecord.clientName income, incomeRecord.amount income,
                             date income, tdsDeducted income,
                             incomeRecord.gstApplicable income)) incomes\<rparr>"
  by (simp add: calculateTax_def Let_def foldl_plus_sum_list)

text \<open>
  Claim C9. For every user that the store finds and every list of income records, the
  tax summary has the total income equal to the sum of the record amounts, the income
  tax equal to \<open>calculateIncomeTax\<close> of the total, the TDS collected equal to the sum of
  round(amount * 0.10) over exactly the records whose TDS flag is set, and the final tax
  payable equal to max(0, income tax - TDS collected). \<open>applyTDS\<close> is round(amount * 0.1),
  and it is 5,000 at 50,000.
\<close>

theorem calculateTax_summary:
  "(\<exists>s. calculateTax (Some u) incomes today = Inr s
      \<and> totalIncome s = sum_list (map incomeRecord.amount incomes)
      \<and> incomeTax s = calculateIncomeTax (totalIncome s)
      \<and> tdsCollected s =
          sum_list (map (\<lambda>i. Math_round (incomeRecord.amount i * 0.10))
            (filter tdsDeducted incomes))
      \<and> finalTaxPayable s = max 0 (incomeTax s - tdsCollected s))
   \<and> applyTDS a = Math_round (a * 0.1)
   \<and> applyTDS 50000 = 5000"
proof -
  have summary: "\<exists>s. calculateTax (Some u) incomes today = Inr s
      \<and> totalIncome s = sum_list (map incomeRecord.amount incomes)
      \<and> incomeTax s = calculateIncomeTax (totalIncome s)
      \<and> tdsCollected s =
          sum_list (map (\<lambda>i. Math_round (incomeRecord.amount i * 0.10))
            (filter tdsDeducted incomes))
      \<and> finalTaxPayable s = max 0 (incomeTax s - tdsCollected s)"
    unfolding calculateTax_found by (simp add: applyTDS_def)
  have one: "applyTDS a = Math_round (a * 0.1)"
    by (simp add: applyTDS_def)
  have sample: "applyTDS 50000 = 5000"
    by (simp add: applyTDS_def Math_round_def)
  from summary one sample show ?thesis
    by blast
qed

text \<open>
  Claim C10. \<open>checkGSTThreshold x\<close> is true exactly when \<open>x\<close> exceeds 2,000,000, so it is
  false at 2,000,000. For every found user and list of income records, the summary's
  \<open>totalIncome\<close> is the sum of the record amounts and its \<open>gstRequired\<close> is true exactly
  when the user is registered for GST and that sum passes the threshold check, that is,
  exceeds 2,000,000; for a user that is not registered it is false whatever the records
  are. A registered user with a single record of 2,500,000 gets \<open>gstRequired\<close> true, and
  with a single record of exactly 2,000,000 gets it false.
\<close>

theorem checkGSTThreshold_gstRequired:
  "checkGSTThreshold x = (x > 2000000)
   \<and> \<not> checkGSTThreshold 2000000
   \<and> (\<exists>s. calculateTax (Some u) incomes today = Inr s
        \<and> totalIncome s = sum_list (map incomeRecord.amount incomes)
        \<and> gstRequired s =
            (gstRegistered u \<and> checkGSTThreshold (sum_list (map incomeRecord.amount incomes)))
        \<and> gstRequired s =
            (gstRegistered u \<and> sum_list (map incomeRecord.amount incomes) > 2000000))
   \<and> (\<exists>s. calculateTax (Some (u\<lparr>gstRegistered := False\<rparr>)) incomes today = Inr s
        \<and> \<not> gstRequired s)
   \<and> (\<exists>s. calculateTax (Some (u\<lparr>gstRegistered := True\<rparr>))
              [\<lparr>incomeRecord.clientName = c, incomeRecord.amount = 2500000, date = d,
                tdsDeducted = td, incomeRecord.gstApplicable = ga\<rparr>] today = Inr s
        \<and> gstRequired s)
   \<and> (\<exists>s. calculateTax (Some (u\<lparr>gstRegistered := True\<rparr>))
              [\<lparr>incomeRecord.clientName = c, incomeRecord.amount = 2000000, date = d,
                tdsDeducted = td, incomeRecord.gstApplicable = ga\<rparr>] today = Inr s
        \<and> \<not> gstRequired s)"
proof -
  have threshold: "checkGSTThreshold x = (x > 2000000)" "\<not> checkGSTThreshold 2000000"
    by (simp_all add: checkGSTThreshold_def)
  have records: "\<exists>s. calculateTax (Some u) incomes today = Inr s
        \<and> totalIncome s = sum_list (map incomeRecord.amount incomes)
        \<and> gstRequired s =
            (gstRegistered u \<and> checkGSTThreshold (sum_list (map incomeRecord.amount incomes)))
        \<and> gstRequired s =
            (gstRegistered u \<and> sum_list (map incomeRecord.amount incomes) > 2000000)"
    unfolding calculateTax_found by (simp add: checkGSTThreshold_def)
  have unregistered:
    "\<exists>s. calculateTax (Some (u\<lparr>gstRegistered := False\<rparr>)) incomes today = Inr s
        \<and> \<not> gstRequired s"
    unfolding calculateTax_found by simp
  have above: "\<exists>s. calculateTax (Some (u\<lparr>gstRegistered := True\<rparr>))
              [\<lparr>incomeRecord.clientName = c, incomeRecord.amount = 2500000, date = d,
                tdsDeducted = td, incomeRecord.gstApplicable = ga\<rparr>] today = Inr s
        \<and> gstRequired s"
    unfolding calculateTax_found by (simp add: checkGSTThreshold_def)
  have exact: "\<exists>s. calculateTax (Some (u\<lparr>gstRegistered := True\<rparr>))
              [\<lparr>incomeRecord.clientName = c, incomeRecord.amount = 2000000, date = d,
                tdsDeducted = td, incomeRecord.gstApplicable = ga\<rparr>] today = Inr s
        \<and> \<not> gstRequired s"
    unfolding calculateTax_found by (simp add: checkGSTThreshold_def)
  from threshold records unregistered above exact show ?thesis
    by blast
qed

end
